theory Spec2Isabelle
  imports Main "HOL-Library.Word"
begin

section \<open>JavaScript strings\<close>

text \<open>
  A JavaScript string is a sequence of 16-bit code units. String literals of the source are
  written through \<open>lit\<close>, which maps each ASCII character to its code unit.
\<close>

type_synonym jsstring = "16 word list"

definition lit :: "string \<Rightarrow> jsstring" where
  "lit cs = map of_char cs"

text \<open>
  \<^verbatim>\<open>String.prototype.trim\<close> removes the code units of ECMAScript's WhiteSpace and
  LineTerminator productions from both ends: TAB, LF, VT, FF, CR, SP, NBSP, U+1680,
  U+2000 to U+200A, U+2028, U+2029, U+202F, U+205F, U+3000 and U+FEFF.
\<close>

definition isWhiteSpace :: "16 word \<Rightarrow> bool" where
  "isWhiteSpace c =
     (c = 0x9 \<or> c = 0xA \<or> c = 0xB \<or> c = 0xC \<or> c = 0xD \<or> c = 0x20 \<or> c = 0xA0
      \<or> c = 0x1680 \<or> (0x2000 \<le> c \<and> c \<le> 0x200A) \<or> c = 0x2028 \<or> c = 0x2029
      \<or> c = 0x202F \<or> c = 0x205F \<or> c = 0x3000 \<or> c = 0xFEFF)"

definition trim :: "jsstring \<Rightarrow> jsstring" where
  "trim s = rev (dropWhile isWhiteSpace (rev (dropWhile isWhiteSpace s)))"

definition startsWith :: "jsstring \<Rightarrow> jsstring \<Rightarrow> bool" where
  "startsWith s p = (take (length p) s = p)"

text \<open>
  Truthiness of a value of type \<^verbatim>\<open>string | null | undefined\<close>: only a non-empty string
  is truthy. \<open>or_else v d\<close> is the source's \<^verbatim>\<open>v || d\<close> on such a value.
\<close>

fun truthy :: "jsstring option \<Rightarrow> bool" where
  "truthy None = False"
| "truthy (Some s) = (s \<noteq> [])"

fun or_else :: "jsstring option \<Rightarrow> jsstring \<Rightarrow> jsstring" where
  "or_else None d = d"
| "or_else (Some s) d = (if s \<noteq> [] then s else d)"

section \<open>Data model (types.ts)\<close>

record ImageData =
  base64 :: jsstring
  mimeType :: jsstring
  url :: jsstring

datatype ProcessingState = IDLE | LOADING | SUCCESS | ERROR

record GeneratedResult =
  imageUrl :: "jsstring option"
  text' :: "jsstring option"

text \<open>
  A file handed over by the file input: its declared content kind (\<^verbatim>\<open>file.type\<close>) and
  its name.
\<close>

record File =
  file_name :: jsstring
  file_type :: jsstring

text \<open>
  The value bound by \<^verbatim>\<open>catch (error: any)\<close>. JavaScript can throw any value. On a value
  other than null and undefined the handler reads the \<^verbatim>\<open>message\<close> property, which is a
  string or is missing (as it is on a thrown primitive): such a value is a \<open>Fault\<close>. On
  null and on undefined, reading \<^verbatim>\<open>error.message\<close> raises a \<^verbatim>\<open>TypeError\<close>.
\<close>

record Fault =
  message :: "jsstring option"

datatype caught = Nullish | NonNullish Fault

text \<open>
  How the promise returned by \<^verbatim>\<open>editImageWithGemini\<close> settles: it resolves with a
  \<open>GeneratedResult\<close> or rejects with the value that was thrown.
\<close>

datatype settled = Resolved GeneratedResult | Rejected caught

section \<open>The component state of App (App.tsx)\<close>

text \<open>
  The five \<^verbatim>\<open>useState\<close> cells of \<open>App\<close>, the value of the file input behind
  \<^verbatim>\<open>fileInputRef\<close> (\<open>None\<close> while \<^verbatim>\<open>fileInputRef.current\<close> is null), and the browser's
  store of object URLs: the URLs issued by \<^verbatim>\<open>URL.createObjectURL\<close> that have not been
  revoked.

  The file input is rendered only while \<open>originalImage\<close> is null (lines 126 and 141 to
  147). A state of the model is the one the component has after the render that follows a
  handler: once an image is stored the input is unmounted and \<^verbatim>\<open>fileInputRef.current\<close> is
  null, and once the image is cleared the input is mounted again, with an empty value.
\<close>

record app =
  originalImage :: "ImageData option"
  prompt :: jsstring
  status :: ProcessingState
  resultImage :: "jsstring option"
  errorMsg :: "jsstring option"
  fileInputValue :: "jsstring option"
  objectUrls :: "jsstring list"

definition init :: app where
  "init = \<lparr>originalImage = None, prompt = [], status = IDLE, resultImage = None,
            errorMsg = None, fileInputValue = Some [], objectUrls = []\<rparr>"

definition setPrompt :: "jsstring \<Rightarrow> app \<Rightarrow> app" where
  "setPrompt p s = s\<lparr>prompt := p\<rparr>"

subsection \<open>handleFileSelect (lines 49 to 72)\<close>

text \<open>
  The handler proper runs up to \<^verbatim>\<open>reader.readAsDataURL(file)\<close>; it returns the new state
  and the file whose read it started, if any. \<^verbatim>\<open>event.target.files\<close> is a list of files
  or null.
\<close>

definition handleFileSelect :: "File list option \<Rightarrow> app \<Rightarrow> app \<times> File option" where
  "handleFileSelect files s =
     (case files of
        None \<Rightarrow> (s, None)
      | Some [] \<Rightarrow> (s, None)
      | Some (file # _) \<Rightarrow>
          if \<not> startsWith (file_type file) (lit ''image/'')
          then (s\<lparr>errorMsg := Some (lit ''Please select a valid image file.'')\<rparr>, None)
          else (s, Some file))"

text \<open>
  The \<^verbatim>\<open>reader.onload\<close> callback for \<open>file\<close>. \<open>res\<close> is \<^verbatim>\<open>e.target?.result\<close>, and \<open>u\<close> is
  the URL that \<^verbatim>\<open>URL.createObjectURL(file)\<close> issues, which enters the store of object URLs.
  The render that follows \<^verbatim>\<open>setOriginalImage\<close> unmounts the file input.
\<close>

definition reader_onload :: "File \<Rightarrow> jsstring option \<Rightarrow> jsstring \<Rightarrow> app \<Rightarrow> app" where
  "reader_onload file res u s =
     (case res of
        None \<Rightarrow> s
      | Some r \<Rightarrow>
          if r \<noteq> []
          then s\<lparr>originalImage := Some \<lparr>base64 = r, mimeType = file_type file, url = u\<rparr>,
                 resultImage := None,
                 status := IDLE,
                 errorMsg := None,
                 fileInputValue := None,
                 objectUrls := u # objectUrls s\<rparr>
          else s)"

subsection \<open>handleGenerate (lines 74 to 95)\<close>

text \<open>
  The asynchronous handler is split at its \<^verbatim>\<open>await\<close>. \<open>handleGenerate_start\<close> runs up to
  the call of \<^verbatim>\<open>editImageWithGemini(originalImage, prompt)\<close> and returns the new state and
  the arguments of that call, or \<open>None\<close> when it returned before calling.
  \<open>handleGenerate_resume\<close> is the rest of the body, run on the state the component has when
  the promise settles: its setters store absolute values, whatever the state is then.
  When the promise rejects with null or undefined, \<^verbatim>\<open>error.message\<close> on line 92 raises a
  \<^verbatim>\<open>TypeError\<close> inside the catch block before either setter of lines 92 and 93 runs: the
  state is left as it is, and the handler's own promise rejects, which
  \<open>handleGenerate_throws\<close> records.
\<close>

definition handleGenerate_start :: "app \<Rightarrow> app \<times> (ImageData \<times> jsstring) option" where
  "handleGenerate_start s =
     (case originalImage s of
        None \<Rightarrow> (s, None)
      | Some img \<Rightarrow>
          if trim (prompt s) = [] then (s, None)
          else (s\<lparr>status := LOADING, errorMsg := None, resultImage := None\<rparr>,
                Some (img, prompt s)))"

fun handleGenerate_resume :: "settled \<Rightarrow> app \<Rightarrow> app" where
  "handleGenerate_resume (Resolved result) s =
     (if truthy (imageUrl result)
      then s\<lparr>resultImage := imageUrl result, status := SUCCESS\<rparr>
      else s\<lparr>errorMsg := Some (or_else (text' result)
                 (lit ''The model responded, but did not generate an image.'')),
             status := ERROR\<rparr>)"
| "handleGenerate_resume (Rejected Nullish) s = s"
| "handleGenerate_resume (Rejected (NonNullish error)) s =
     s\<lparr>errorMsg := Some (or_else (message error) (lit ''An unexpected error occurred.'')),
       status := ERROR\<rparr>"

fun handleGenerate_throws :: "settled \<Rightarrow> bool" where
  "handleGenerate_throws (Resolved result) = False"
| "handleGenerate_throws (Rejected Nullish) = True"
| "handleGenerate_throws (Rejected (NonNullish error)) = False"

text \<open>
  The generate button (lines 206 to 208) is rendered only while an image is present and is
  disabled while \<^verbatim>\<open>status === ProcessingState.LOADING || !prompt.trim()\<close>; a click on a
  disabled or absent button does not call the handler.
\<close>

definition generate_disabled :: "app \<Rightarrow> bool" where
  "generate_disabled s = (status s = LOADING \<or> trim (prompt s) = [])"

definition click_generate :: "app \<Rightarrow> app \<times> (ImageData \<times> jsstring) option" where
  "click_generate s =
     (if originalImage s = None \<or> generate_disabled s then (s, None)
      else handleGenerate_start s)"

subsection \<open>handleReset (lines 97 to 106)\<close>

text \<open>
  While \<^verbatim>\<open>fileInputRef.current\<close> is not null, lines 103 to 105 empty the value of the file
  input. While it is null they are skipped, and the render that follows
  \<^verbatim>\<open>setOriginalImage(null)\<close> mounts the file input again, with an empty value.
\<close>

definition handleReset :: "app \<Rightarrow> app" where
  "handleReset s =
     s\<lparr>originalImage := None,
       resultImage := None,
       prompt := [],
       status := IDLE,
       errorMsg := None,
       fileInputValue := (case fileInputValue s of None \<Rightarrow> Some [] | Some _ \<Rightarrow> Some [])\<rparr>"

subsection \<open>Handlers together with their continuations\<close>

text \<open>
  \<open>handleGenerate x s\<close> is one whole run of the asynchronous handler from state \<open>s\<close>, with
  no other event between the call of the client and the moment its promise settles as \<open>x\<close>.
  \<open>acquireImage\<close> is the same for \<open>handleFileSelect\<close> and the \<^verbatim>\<open>onload\<close> callback of the read
  it starts.
\<close>

definition handleGenerate :: "settled \<Rightarrow> app \<Rightarrow> app" where
  "handleGenerate x s =
     (case handleGenerate_start s of
        (s1, None) \<Rightarrow> s1
      | (s1, Some req) \<Rightarrow> handleGenerate_resume x s1)"

definition acquireImage :: "File list option \<Rightarrow> jsstring option \<Rightarrow> jsstring \<Rightarrow> app \<Rightarrow> app" where
  "acquireImage files res u s =
     (case handleFileSelect files s of
        (s1, None) \<Rightarrow> s1
      | (s1, Some file) \<Rightarrow> reader_onload file res u s1)"

text \<open>
  The button that calls \<open>handleReset\<close> (lines 169 to 174) is never disabled, so it can be
  clicked while a call of the client is in flight. \<open>reset_while_loading x s\<close> is that
  interleaving: \<open>handleGenerate\<close> starts from \<open>s\<close>, \<open>handleReset\<close> runs while the call is
  pending, and then the promise settles as \<open>x\<close> and the rest of \<open>handleGenerate\<close> runs.
\<close>

definition reset_while_loading :: "settled \<Rightarrow> app \<Rightarrow> app" where
  "reset_while_loading x s =
     (case handleGenerate_start s of
        (s1, None) \<Rightarrow> handleReset s1
      | (s1, Some req) \<Rightarrow> handleGenerate_resume x (handleReset s1))"

text \<open>An object URL is live in a state while it is in the store of object URLs.\<close>

definition live :: "jsstring \<Rightarrow> app \<Rightarrow> bool" where
  "live u s = (u \<in> set (objectUrls s))"

subsection \<open>Example sessions\<close>

definition png :: File where
  "png = \<lparr>file_name = lit ''cat.png'', file_type = lit ''image/png''\<rparr>"

definition jpeg :: File where
  "jpeg = \<lparr>file_name = lit ''dog.jpg'', file_type = lit ''image/jpeg''\<rparr>"

definition memo :: File where
  "memo = \<lparr>file_name = lit ''notes.txt'', file_type = lit ''text/plain''\<rparr>"

text \<open>
  The session after \<open>png\<close> has been selected and read (the browser issued \<^verbatim>\<open>blob:1\<close> for it)
  and the instruction \<^verbatim>\<open>test\<close> has been typed.
\<close>

definition loaded :: app where
  "loaded =
     setPrompt (lit ''test'')
       (acquireImage (Some [png]) (Some (lit ''data:image/png;base64,iVBOR'')) (lit ''blob:1'')
          init)"

definition edited :: GeneratedResult where
  "edited = \<lparr>imageUrl = Some (lit ''data:image/png;base64,AAAA''), text' = None\<rparr>"

definition refusal :: GeneratedResult where
  "refusal = \<lparr>imageUrl = None, text' = Some (lit ''I cannot do that'')\<rparr>"

definition silent :: GeneratedResult where
  "silent = \<lparr>imageUrl = None, text' = None\<rparr>"

definition timed_out :: Fault where
  "timed_out = \<lparr>message = Some (lit ''timeout'')\<rparr>"

definition unnamed :: Fault where
  "unnamed = \<lparr>message = None\<rparr>"

section \<open>Properties\<close>


subsection \<open>Facts about the example sessions and the start of a run\<close>

lemma loaded_eq:
  "loaded =
     \<lparr>originalImage = Some \<lparr>base64 = lit ''data:image/png;base64,iVBOR'',
                              mimeType = lit ''image/png'', url = lit ''blob:1''\<rparr>,
      prompt = lit ''test'', status = IDLE, resultImage = None, errorMsg = None,
      fileInputValue = None, objectUrls = [lit ''blob:1'']\<rparr>"
  by (simp add: loaded_def setPrompt_def acquireImage_def handleFileSelect_def
      reader_onload_def init_def png_def startsWith_def lit_def)

lemma trim_test: "trim (lit ''test'') \<noteq> []"
  by (simp add: trim_def lit_def isWhiteSpace_def)

lemma image_loaded:
  "originalImage loaded = Some \<lparr>base64 = lit ''data:image/png;base64,iVBOR'',
      mimeType = lit ''image/png'', url = lit ''blob:1''\<rparr>"
  by (simp add: loaded_eq)

lemma prompt_loaded: "trim (prompt loaded) \<noteq> []"
  by (simp add: loaded_eq trim_test)

lemma memo_not_image: "\<not> startsWith (file_type memo) (lit ''image/'')"
  by (simp add: memo_def startsWith_def lit_def)

lemma jpeg_image: "startsWith (file_type jpeg) (lit ''image/'')"
  by (simp add: jpeg_def startsWith_def lit_def)

lemma truthy_edited: "truthy (imageUrl edited)"
  by (simp add: edited_def lit_def)

lemma text_refusal:
  "\<not> truthy (imageUrl refusal) \<and> text' refusal = Some (lit ''I cannot do that'')
   \<and> lit ''I cannot do that'' \<noteq> []"
  by (simp add: refusal_def lit_def)

lemma nothing_silent: "\<not> truthy (imageUrl silent) \<and> \<not> truthy (text' silent)"
  by (simp add: silent_def)

lemma message_timed_out: "message timed_out = Some (lit ''timeout'') \<and> lit ''timeout'' \<noteq> []"
  by (simp add: timed_out_def lit_def)

lemma message_unnamed: "\<not> truthy (message unnamed)"
  by (simp add: unnamed_def)

lemma handleGenerate_start_ready:
  assumes "originalImage s = Some img" and "trim (prompt s) \<noteq> []"
  shows "handleGenerate_start s =
           (s\<lparr>status := LOADING, errorMsg := None, resultImage := None\<rparr>, Some (img, prompt s))"
  using assms by (simp add: handleGenerate_start_def)

lemma handleGenerate_ready:
  assumes "originalImage s = Some img" and "trim (prompt s) \<noteq> []"
  shows "handleGenerate x s =
           handleGenerate_resume x (s\<lparr>status := LOADING, errorMsg := None, resultImage := None\<rparr>)"
  using assms by (simp add: handleGenerate_def handleGenerate_start_def)

lemma reset_while_loading_ready:
  assumes "originalImage s = Some img" and "trim (prompt s) \<noteq> []"
  shows "reset_while_loading x s = handleGenerate_resume x (handleReset s)"
  using assms by (simp add: reset_while_loading_def handleGenerate_start_def handleReset_def)

subsection \<open>Generating\<close>

text \<open>
  What a run of \<open>handleGenerate\<close> leaves, for every way the call of the client settles
  other than a rejection with null or undefined: \<open>SUCCESS\<close> with the image stored exactly
  when the reply carries an image, otherwise \<open>ERROR\<close> with the reply's text, the fault's
  message or the fixed fallback message stored.
\<close>

lemma handleGenerate_settled:
  assumes "originalImage s = Some img" and "trim (prompt s) \<noteq> []"
  shows "(truthy (imageUrl r) \<longrightarrow>
            status (handleGenerate (Resolved r) s) = SUCCESS
            \<and> resultImage (handleGenerate (Resolved r) s) = imageUrl r
            \<and> errorMsg (handleGenerate (Resolved r) s) = None)
    \<and> (\<not> truthy (imageUrl r) \<longrightarrow>
            status (handleGenerate (Resolved r) s) = ERROR
            \<and> resultImage (handleGenerate (Resolved r) s) = None
            \<and> errorMsg (handleGenerate (Resolved r) s) = Some (or_else (text' r)
                 (lit ''The model responded, but did not generate an image.'')))
    \<and> status (handleGenerate (Rejected (NonNullish e)) s) = ERROR
    \<and> resultImage (handleGenerate (Rejected (NonNullish e)) s) = None
    \<and> errorMsg (handleGenerate (Rejected (NonNullish e)) s)
        = Some (or_else (message e) (lit ''An unexpected error occurred.''))"
  by (simp add: handleGenerate_ready [OF assms])

text \<open>
  C1. The specification asks that every run of \<open>handleGenerate\<close> from a session holding an
  image and an instruction that is not only whitespace ends in \<open>SUCCESS\<close> or \<open>ERROR\<close>, never
  in \<open>LOADING\<close>. In the session \<open>loaded\<close> the run moves the state to \<open>LOADING\<close>; when the
  client's promise then rejects with null or undefined the catch block itself throws, the
  run is over, and the state is still \<open>LOADING\<close>, neither \<open>SUCCESS\<close> nor \<open>ERROR\<close>.
\<close>

theorem generate_stays_loading:
  "originalImage loaded \<noteq> None \<and> trim (prompt loaded) \<noteq> []
   \<and> status (fst (handleGenerate_start loaded)) = LOADING
   \<and> handleGenerate_throws (Rejected Nullish)
   \<and> status (handleGenerate (Rejected Nullish) loaded) = LOADING
   \<and> status (handleGenerate (Rejected Nullish) loaded) \<noteq> SUCCESS
   \<and> status (handleGenerate (Rejected Nullish) loaded) \<noteq> ERROR"
  by (simp add: handleGenerate_ready [OF image_loaded prompt_loaded]
      handleGenerate_start_ready [OF image_loaded prompt_loaded] image_loaded prompt_loaded)

text \<open>
  C2 (as stated). The specification asks that a response arriving after a reset is discarded. In
  the session \<open>loaded\<close> the state is \<open>LOADING\<close> once the run has started and \<open>IDLE\<close> after the
  reset, yet when the pending call then resolves with an image the state becomes \<open>SUCCESS\<close>
  and the image is stored as the result, with no original image in the session.
\<close>

theorem late_response_counterexample:
  "status (fst (handleGenerate_start loaded)) = LOADING
   \<and> status (handleReset (fst (handleGenerate_start loaded))) = IDLE
   \<and> status (reset_while_loading (Resolved edited) loaded) = SUCCESS
   \<and> resultImage (reset_while_loading (Resolved edited) loaded)
       = Some (lit ''data:image/png;base64,AAAA'')
   \<and> originalImage (reset_while_loading (Resolved edited) loaded) = None"
  by (simp add: handleGenerate_start_ready [OF image_loaded prompt_loaded]
      reset_while_loading_ready [OF image_loaded prompt_loaded] handleReset_def
      edited_def lit_def)

text \<open>
  C2 (amended). When \<open>handleReset\<close> runs while a call of the client is in flight, the response
  that arrives later is not discarded: it is applied to the reset session, whose stored
  original image stays null and whose instruction stays empty. When the client resolved
  with an image the state becomes \<open>SUCCESS\<close> with that image as the stored result. When it
  resolved without an image, or rejected with a value other than null and undefined, the
  state becomes \<open>ERROR\<close> and the stored message is the reply's text or the fault's message
  when there is a non-empty one, and the handler's fixed fallback message otherwise.
\<close>

theorem late_response_applied:
  assumes "originalImage s = Some img" and "trim (prompt s) \<noteq> []"
  shows "originalImage (reset_while_loading x s) = None
    \<and> prompt (reset_while_loading x s) = []
    \<and> (\<forall>r. x = Resolved r \<and> truthy (imageUrl r) \<longrightarrow>
           status (reset_while_loading x s) = SUCCESS
           \<and> resultImage (reset_while_loading x s) = imageUrl r
           \<and> errorMsg (reset_while_loading x s) = None)
    \<and> (\<forall>r m. x = Resolved r \<and> \<not> truthy (imageUrl r) \<and> text' r = Some m \<and> m \<noteq> [] \<longrightarrow>
           status (reset_while_loading x s) = ERROR
           \<and> errorMsg (reset_while_loading x s) = Some m
           \<and> resultImage (reset_while_loading x s) = None)
    \<and> (\<forall>r. x = Resolved r \<and> \<not> truthy (imageUrl r) \<and> \<not> truthy (text' r) \<longrightarrow>
           status (reset_while_loading x s) = ERROR
           \<and> errorMsg (reset_while_loading x s)
               = Some (lit ''The model responded, but did not generate an image.'')
           \<and> resultImage (reset_while_loading x s) = None)
    \<and> (\<forall>e m. x = Rejected (NonNullish e) \<and> message e = Some m \<and> m \<noteq> [] \<longrightarrow>
           status (reset_while_loading x s) = ERROR
           \<and> errorMsg (reset_while_loading x s) = Some m
           \<and> resultImage (reset_while_loading x s) = None)
    \<and> (\<forall>e. x = Rejected (NonNullish e) \<and> \<not> truthy (message e) \<longrightarrow>
           status (reset_while_loading x s) = ERROR
           \<and> errorMsg (reset_while_loading x s) = Some (lit ''An unexpected error occurred.'')
           \<and> resultImage (reset_while_loading x s) = None)"
proof -
  note run = reset_while_loading_ready [OF assms]
  have fallback: "or_else v d = d" if "\<not> truthy v" for v d
    using that by (cases v) auto
  show ?thesis
  proof (cases x)
    case (Resolved r)
    then show ?thesis
      by (simp add: run handleReset_def fallback)
  next
    case (Rejected c)
    then show ?thesis
      by (cases c) (simp_all add: run handleReset_def fallback)
  qed
qed

theorem late_response_applied_witness:
  "originalImage loaded \<noteq> None \<and> trim (prompt loaded) \<noteq> []
   \<and> originalImage (reset_while_loading (Resolved edited) loaded) = None
   \<and> prompt (reset_while_loading (Resolved edited) loaded) = []
   \<and> truthy (imageUrl edited)
   \<and> status (reset_while_loading (Resolved edited) loaded) = SUCCESS
   \<and> resultImage (reset_while_loading (Resolved edited) loaded) = imageUrl edited
   \<and> \<not> truthy (imageUrl refusal) \<and> text' refusal = Some (lit ''I cannot do that'')
   \<and> status (reset_while_loading (Resolved refusal) loaded) = ERROR
   \<and> errorMsg (reset_while_loading (Resolved refusal) loaded) = Some (lit ''I cannot do that'')
   \<and> \<not> truthy (imageUrl silent) \<and> \<not> truthy (text' silent)
   \<and> status (reset_while_loading (Resolved silent) loaded) = ERROR
   \<and> errorMsg (reset_while_loading (Resolved silent) loaded)
       = Some (lit ''The model responded, but did not generate an image.'')
   \<and> message timed_out = Some (lit ''timeout'')
   \<and> status (reset_while_loading (Rejected (NonNullish timed_out)) loaded) = ERROR
   \<and> errorMsg (reset_while_loading (Rejected (NonNullish timed_out)) loaded)
       = Some (lit ''timeout'')
   \<and> \<not> truthy (message unnamed)
   \<and> status (reset_while_loading (Rejected (NonNullish unnamed)) loaded) = ERROR
   \<and> errorMsg (reset_while_loading (Rejected (NonNullish unnamed)) loaded)
       = Some (lit ''An unexpected error occurred.'')"
  using late_response_applied [OF image_loaded prompt_loaded, of "Resolved edited"]
    late_response_applied [OF image_loaded prompt_loaded, of "Resolved refusal"]
    late_response_applied [OF image_loaded prompt_loaded, of "Resolved silent"]
    late_response_applied [OF image_loaded prompt_loaded, of "Rejected (NonNullish timed_out)"]
    late_response_applied [OF image_loaded prompt_loaded, of "Rejected (NonNullish unnamed)"]
    image_loaded prompt_loaded truthy_edited text_refusal nothing_silent message_timed_out
    message_unnamed
  by simp

text \<open>
  C4 (as stated). The specification asks that the handler itself ignores a call made while the state
  is \<open>LOADING\<close>. In the session \<open>loaded\<close> the first run moves the state to \<open>LOADING\<close> and calls
  the client; \<open>handleGenerate\<close> called again in that state calls the client a second time,
  before the first call has settled.
\<close>

theorem second_generate_counterexample:
  "status (fst (handleGenerate_start loaded)) = LOADING
   \<and> snd (handleGenerate_start loaded) \<noteq> None
   \<and> snd (handleGenerate_start (fst (handleGenerate_start loaded)))
       = Some (\<lparr>base64 = lit ''data:image/png;base64,iVBOR'', mimeType = lit ''image/png'',
                 url = lit ''blob:1''\<rparr>, lit ''test'')"
  by (simp add: handleGenerate_start_ready [OF image_loaded prompt_loaded]
      handleGenerate_start_def loaded_eq trim_test)

text \<open>
  C4 (amended). While the state is \<open>LOADING\<close> the generate button is disabled, so a click on it
  is ignored: the state is unchanged and no call of the client is started. The rule is
  enforced by the disabled button only: \<open>handleGenerate\<close> does not look at the state, and
  called in a \<open>LOADING\<close> session that holds an image and an instruction that is not only
  whitespace it calls the client again and leaves the state \<open>LOADING\<close>.
\<close>

theorem generate_locked_by_control:
  assumes "status s = LOADING"
  shows "generate_disabled s \<and> click_generate s = (s, None)
    \<and> (\<forall>img. originalImage s = Some img \<and> trim (prompt s) \<noteq> [] \<longrightarrow>
          snd (handleGenerate_start s) = Some (img, prompt s)
          \<and> status (fst (handleGenerate_start s)) = LOADING)"
  using assms
  by (simp add: generate_disabled_def click_generate_def handleGenerate_start_def)

theorem generate_locked_by_control_witness:
  "status (fst (handleGenerate_start loaded)) = LOADING
   \<and> originalImage (fst (handleGenerate_start loaded)) \<noteq> None
   \<and> trim (prompt (fst (handleGenerate_start loaded))) \<noteq> []
   \<and> click_generate (fst (handleGenerate_start loaded)) = (fst (handleGenerate_start loaded), None)
   \<and> snd (handleGenerate_start (fst (handleGenerate_start loaded))) \<noteq> None"
proof -
  note start = handleGenerate_start_ready [OF image_loaded prompt_loaded]
  have a: "status (fst (handleGenerate_start loaded)) = LOADING" by (simp add: start)
  have b: "originalImage (fst (handleGenerate_start loaded)) = originalImage loaded"
    by (simp add: start)
  have c: "prompt (fst (handleGenerate_start loaded)) = prompt loaded" by (simp add: start)
  show ?thesis
    using generate_locked_by_control [OF a] a b c image_loaded prompt_loaded by simp
qed

text \<open>
  C5. For every session whose instruction is empty or only whitespace, or that holds no
  image, \<open>handleGenerate\<close> does nothing: it returns before calling the client, and the whole
  state, with its state enumeration, stored result and stored error message, is unchanged.
\<close>

theorem handleGenerate_ignored:
  assumes "originalImage s = None \<or> trim (prompt s) = []"
  shows "handleGenerate_start s = (s, None) \<and> handleGenerate x s = s"
  using assms
  by (auto simp add: handleGenerate_def handleGenerate_start_def split: option.splits)

theorem handleGenerate_ignored_witness:
  "originalImage init = None \<and> handleGenerate_start init = (init, None)
   \<and> originalImage (setPrompt (lit '' '') loaded) \<noteq> None
   \<and> trim (prompt (setPrompt (lit '' '') loaded)) = []
   \<and> handleGenerate_start (setPrompt (lit '' '') loaded) = (setPrompt (lit '' '') loaded, None)"
proof -
  have a: "originalImage init = None" by (simp add: init_def)
  have b: "trim (prompt (setPrompt (lit '' '') loaded)) = []"
    by (simp add: setPrompt_def trim_def lit_def isWhiteSpace_def)
  have c: "originalImage (setPrompt (lit '' '') loaded) \<noteq> None"
    by (simp add: setPrompt_def loaded_eq)
  show ?thesis
    using handleGenerate_ignored [of init] handleGenerate_ignored [of "setPrompt (lit '' '') loaded"]
      a b c by simp
qed

text \<open>
  C6. The specification asks that every fault thrown by the call of the client leads to
  \<open>ERROR\<close> with a message, the generic one when the fault has none. In the session \<open>loaded\<close>,
  when the client's promise rejects with null or undefined, reading \<^verbatim>\<open>error.message\<close>
  throws inside the catch block: no message is stored, not even the generic one, no result
  is stored, and the state is left \<open>LOADING\<close>.
\<close>

theorem nullish_fault_not_reported:
  "handleGenerate_throws (Rejected Nullish)
   \<and> errorMsg (handleGenerate (Rejected Nullish) loaded) = None
   \<and> errorMsg (handleGenerate (Rejected Nullish) loaded)
       \<noteq> Some (lit ''An unexpected error occurred.'')
   \<and> resultImage (handleGenerate (Rejected Nullish) loaded) = None
   \<and> status (handleGenerate (Rejected Nullish) loaded) = LOADING"
  by (simp add: handleGenerate_ready [OF image_loaded prompt_loaded])

subsection \<open>Acquiring an image\<close>

text \<open>
  C3 (as stated). The specification asks that a file that is not an image leaves the stored error
  message as it was. From the initial state, where no error message is stored, selecting the
  text file \<open>memo\<close> stores the message \<^verbatim>\<open>Please select a valid image file.\<close> in \<open>errorMsg\<close>.
\<close>

theorem non_image_counterexample:
  "\<not> startsWith (file_type memo) (lit ''image/'')
   \<and> errorMsg init = None
   \<and> errorMsg (fst (handleFileSelect (Some [memo]) init))
       = Some (lit ''Please select a valid image file.'')
   \<and> fst (handleFileSelect (Some [memo]) init) \<noteq> init"
  by (simp add: handleFileSelect_def memo_not_image init_def)

text \<open>
  C3 (amended). For every file whose declared content kind does not start with \<^verbatim>\<open>image/\<close>
  the acquisition fails: no read is started and no image is stored. The stored image, the
  stored result, the instruction, the state enumeration and the object URLs keep their prior
  values; the error is stored in the session's error message, which becomes
  \<^verbatim>\<open>Please select a valid image file.\<close> whatever it was before.
\<close>

theorem non_image_rejected:
  assumes "\<not> startsWith (file_type file) (lit ''image/'')"
  shows "snd (handleFileSelect (Some (file # rest)) s) = None
    \<and> acquireImage (Some (file # rest)) res u s = fst (handleFileSelect (Some (file # rest)) s)
    \<and> originalImage (fst (handleFileSelect (Some (file # rest)) s)) = originalImage s
    \<and> resultImage (fst (handleFileSelect (Some (file # rest)) s)) = resultImage s
    \<and> status (fst (handleFileSelect (Some (file # rest)) s)) = status s
    \<and> prompt (fst (handleFileSelect (Some (file # rest)) s)) = prompt s
    \<and> objectUrls (fst (handleFileSelect (Some (file # rest)) s)) = objectUrls s
    \<and> errorMsg (fst (handleFileSelect (Some (file # rest)) s))
        = Some (lit ''Please select a valid image file.'')"
  using assms by (simp add: handleFileSelect_def acquireImage_def)

theorem non_image_rejected_witness:
  "\<not> startsWith (file_type memo) (lit ''image/'')
   \<and> snd (handleFileSelect (Some [memo]) loaded) = None
   \<and> originalImage (fst (handleFileSelect (Some [memo]) loaded)) = originalImage loaded
   \<and> status (fst (handleFileSelect (Some [memo]) loaded)) = status loaded
   \<and> errorMsg (fst (handleFileSelect (Some [memo]) loaded))
       = Some (lit ''Please select a valid image file.'')"
  using non_image_rejected [OF memo_not_image, where rest = "[]" and s = loaded] memo_not_image
  by simp

text \<open>
  C10. For every successful acquisition (the first selected file declares an image kind and
  its read yields a non-empty result), the session stores the new image, clears the stored
  result, clears the stored error message and sets the state enumeration to \<open>IDLE\<close>, whatever
  the state was before; the instruction is kept. Acquired from a \<open>SUCCESS\<close> or \<open>ERROR\<close> state,
  the new image so discards that outcome.
\<close>

theorem acquireImage_success:
  assumes "startsWith (file_type file) (lit ''image/'')" and "r \<noteq> []"
  shows "handleFileSelect (Some (file # rest)) s = (s, Some file)
    \<and> originalImage (acquireImage (Some (file # rest)) (Some r) u s)
        = Some \<lparr>base64 = r, mimeType = file_type file, url = u\<rparr>
    \<and> resultImage (acquireImage (Some (file # rest)) (Some r) u s) = None
    \<and> errorMsg (acquireImage (Some (file # rest)) (Some r) u s) = None
    \<and> status (acquireImage (Some (file # rest)) (Some r) u s) = IDLE
    \<and> prompt (acquireImage (Some (file # rest)) (Some r) u s) = prompt s"
  using assms by (simp add: handleFileSelect_def acquireImage_def reader_onload_def)

theorem acquireImage_success_witness:
  "startsWith (file_type jpeg) (lit ''image/'') \<and> lit ''data:image/jpeg;base64,AA'' \<noteq> []
   \<and> status (handleGenerate (Resolved edited) loaded) = SUCCESS
   \<and> resultImage (handleGenerate (Resolved edited) loaded) \<noteq> None
   \<and> status (acquireImage (Some [jpeg]) (Some (lit ''data:image/jpeg;base64,AA''))
        (lit ''blob:2'') (handleGenerate (Resolved edited) loaded)) = IDLE
   \<and> resultImage (acquireImage (Some [jpeg]) (Some (lit ''data:image/jpeg;base64,AA''))
        (lit ''blob:2'') (handleGenerate (Resolved edited) loaded)) = None
   \<and> errorMsg (acquireImage (Some [jpeg]) (Some (lit ''data:image/jpeg;base64,AA''))
        (lit ''blob:2'') (handleGenerate (Resolved edited) loaded)) = None
   \<and> status (handleGenerate (Rejected (NonNullish timed_out)) loaded) = ERROR
   \<and> errorMsg (handleGenerate (Rejected (NonNullish timed_out)) loaded) \<noteq> None
   \<and> status (acquireImage (Some [jpeg]) (Some (lit ''data:image/jpeg;base64,AA''))
        (lit ''blob:2'') (handleGenerate (Rejected (NonNullish timed_out)) loaded)) = IDLE
   \<and> errorMsg (acquireImage (Some [jpeg]) (Some (lit ''data:image/jpeg;base64,AA''))
        (lit ''blob:2'') (handleGenerate (Rejected (NonNullish timed_out)) loaded)) = None"
proof -
  have r: "lit ''data:image/jpeg;base64,AA'' \<noteq> []" by (simp add: lit_def)
  have ok: "status (handleGenerate (Resolved edited) loaded) = SUCCESS
      \<and> resultImage (handleGenerate (Resolved edited) loaded) \<noteq> None"
    by (simp add: handleGenerate_ready [OF image_loaded prompt_loaded] edited_def lit_def)
  have bad: "status (handleGenerate (Rejected (NonNullish timed_out)) loaded) = ERROR
      \<and> errorMsg (handleGenerate (Rejected (NonNullish timed_out)) loaded) \<noteq> None"
    by (simp add: handleGenerate_ready [OF image_loaded prompt_loaded])
  show ?thesis
    using acquireImage_success [OF jpeg_image r, where rest = "[]" and u = "lit ''blob:2''"
        and s = "handleGenerate (Resolved edited) loaded"]
      acquireImage_success [OF jpeg_image r, where rest = "[]" and u = "lit ''blob:2''"
        and s = "handleGenerate (Rejected (NonNullish timed_out)) loaded"]
      jpeg_image r ok bad
    by simp
qed

subsection \<open>Display handles\<close>

text \<open>
  C8 (as stated). The specification asks that the display handle of the previous image is released
  when a new image is acquired and when the session is reset. The session \<open>loaded\<close> holds an
  image whose handle is \<^verbatim>\<open>blob:1\<close>; that URL is still live after \<open>handleReset\<close>, and still
  live after the image \<open>jpeg\<close> has been acquired with the new handle \<^verbatim>\<open>blob:2\<close>.
\<close>

theorem handle_release_counterexample:
  "originalImage loaded \<noteq> None
   \<and> map_option url (originalImage loaded) = Some (lit ''blob:1'')
   \<and> live (lit ''blob:1'') loaded
   \<and> live (lit ''blob:1'') (handleReset loaded)
   \<and> live (lit ''blob:1'')
        (acquireImage (Some [jpeg]) (Some (lit ''data:image/jpeg;base64,AA'')) (lit ''blob:2'')
           loaded)
   \<and> map_option url (originalImage
        (acquireImage (Some [jpeg]) (Some (lit ''data:image/jpeg;base64,AA'')) (lit ''blob:2'')
           loaded)) = Some (lit ''blob:2'')"
  by (simp add: live_def loaded_eq handleReset_def acquireImage_def handleFileSelect_def
      reader_onload_def jpeg_image) (simp add: lit_def)

text \<open>
  C8 (amended). Whenever a new image is successfully acquired while a previous image's
  display handle exists, and whenever \<open>handleReset\<close> runs, the session stops referring to the
  previous handle (the stored image is the new one, or null), but the handle is not
  released: it stays live, next to the handle issued for the new image.
\<close>

theorem handle_dropped_not_released:
  assumes "originalImage s = Some img" and "live (url img) s"
  shows "originalImage (handleReset s) = None \<and> live (url img) (handleReset s)
    \<and> (startsWith (file_type file) (lit ''image/'') \<and> r \<noteq> [] \<longrightarrow>
          originalImage (acquireImage (Some (file # rest)) (Some r) u s)
            = Some \<lparr>base64 = r, mimeType = file_type file, url = u\<rparr>
          \<and> live u (acquireImage (Some (file # rest)) (Some r) u s)
          \<and> live (url img) (acquireImage (Some (file # rest)) (Some r) u s))"
  using assms
  by (simp add: live_def handleReset_def acquireImage_def handleFileSelect_def reader_onload_def)

theorem handle_dropped_not_released_witness:
  "originalImage loaded \<noteq> None \<and> live (lit ''blob:1'') loaded
   \<and> startsWith (file_type jpeg) (lit ''image/'') \<and> lit ''data:image/jpeg;base64,AA'' \<noteq> []
   \<and> originalImage (handleReset loaded) = None \<and> live (lit ''blob:1'') (handleReset loaded)
   \<and> live (lit ''blob:1'')
        (acquireImage (Some [jpeg]) (Some (lit ''data:image/jpeg;base64,AA'')) (lit ''blob:2'')
           loaded)"
proof -
  have l: "live (url \<lparr>base64 = lit ''data:image/png;base64,iVBOR'',
      mimeType = lit ''image/png'', url = lit ''blob:1''\<rparr>) loaded"
    by (simp add: live_def loaded_eq)
  have r: "lit ''data:image/jpeg;base64,AA'' \<noteq> []" by (simp add: lit_def)
  show ?thesis
    using handle_dropped_not_released [OF image_loaded l, of jpeg
        "lit ''data:image/jpeg;base64,AA''" "[]" "lit ''blob:2''"]
      image_loaded l jpeg_image r
    by simp
qed

subsection \<open>Resetting\<close>

text \<open>
  C7. From every state, \<open>handleReset\<close> yields the state \<open>IDLE\<close> with no image: the stored
  image, the stored result and the stored error message are null, and the instruction text
  is the empty string.
\<close>

theorem handleReset_clears:
  "originalImage (handleReset s) = None \<and> resultImage (handleReset s) = None
   \<and> errorMsg (handleReset s) = None \<and> prompt (handleReset s) = []
   \<and> status (handleReset s) = IDLE"
  by (simp add: handleReset_def)

theorem handleReset_clears_witness:
  "status (handleGenerate (Resolved edited) loaded) = SUCCESS
   \<and> status (handleReset (handleGenerate (Resolved edited) loaded)) = IDLE
   \<and> originalImage (handleReset (handleGenerate (Resolved edited) loaded)) = None
   \<and> resultImage (handleReset (handleGenerate (Resolved edited) loaded)) = None
   \<and> errorMsg (handleReset (handleGenerate (Resolved edited) loaded)) = None
   \<and> prompt (handleReset (handleGenerate (Resolved edited) loaded)) = []"
proof -
  have ok: "status (handleGenerate (Resolved edited) loaded) = SUCCESS"
    by (simp add: handleGenerate_ready [OF image_loaded prompt_loaded] edited_def lit_def)
  show ?thesis
    using handleReset_clears [of "handleGenerate (Resolved edited) loaded"] ok by simp
qed

text \<open>
  C9. \<open>handleReset\<close> is idempotent: run twice in a row from any state, it leaves exactly the
  state that one run leaves.
\<close>

theorem handleReset_idempotent: "handleReset (handleReset s) = handleReset s"
  by (simp add: handleReset_def split: option.splits)

theorem handleReset_idempotent_witness:
  "handleReset (handleReset loaded) = handleReset loaded"
  using handleReset_idempotent [of loaded] by simp

end
